theory Spec2Isabelle
  imports Complex_Main
begin

section \<open>The marquee loop builder of marquee.js\<close>

text \<open>
  The module exports \<^verbatim>\<open>setupMarqueeAnimation\<close>, which queries the document for the
  marquee elements and, when there are any, calls \<^verbatim>\<open>horizontalLoop\<close>. That function
  measures every element, computes the width of one full cycle and schedules two tweens
  per element on a timeline of the animation library.

  The animation library itself is not part of the repository. Its timeline is modelled as
  the data the builder hands over: the constructor's options and the list of scheduled
  tweens, in scheduling order. What the library later does with them (playback, repeats,
  rendering) is outside the model, and so is the final
  \<^verbatim>\<open>tl.progress(1, true).progress(0, true)\<close>, which schedules nothing.
\<close>

subsection \<open>Numbers\<close>

text \<open>
  A JavaScript number is a double. Finite values are idealised as reals (no rounding, no
  overflow), so the model computes the formulas of the source exactly; statements that
  depend on how doubles round are outside its reach. The three non-finite values NaN, Infinity and -Infinity are collapsed into
  \<open>NonFinite\<close>: the builder only adds, subtracts, multiplies, and divides by finite
  divisors (a measured width, the constant 100, pixelsPerSecond), and each of these
  operations yields a non-finite value whenever an operand is non-finite; a finite value
  divided by zero is non-finite as well (NaN for 0/0, an infinity otherwise). So
  \<open>NonFinite\<close> is absorbing, and the second operand of a product or quotient, which is
  finite in every expression of the source, has type \<open>real\<close>.
\<close>

datatype jsnum = Fin real | NonFinite

fun nadd :: "jsnum \<Rightarrow> jsnum \<Rightarrow> jsnum" where
  "nadd (Fin a) (Fin b) = Fin (a + b)"
| "nadd _ _ = NonFinite"

fun nsub :: "jsnum \<Rightarrow> jsnum \<Rightarrow> jsnum" where
  "nsub (Fin a) (Fin b) = Fin (a - b)"
| "nsub _ _ = NonFinite"

fun nmul :: "jsnum \<Rightarrow> real \<Rightarrow> jsnum" where
  "nmul (Fin a) b = Fin (a * b)"
| "nmul NonFinite b = NonFinite"

fun ndiv :: "jsnum \<Rightarrow> real \<Rightarrow> jsnum" where
  "ndiv (Fin a) b = (if b = 0 then NonFinite else Fin (a / b))"
| "ndiv NonFinite b = NonFinite"

subsection \<open>Elements, configuration, timeline\<close>

text \<open>
  An element is the snapshot of what the builder reads from it: the layout properties
  \<^verbatim>\<open>offsetLeft\<close> and \<^verbatim>\<open>offsetWidth\<close>, and the library's
  \<^verbatim>\<open>getProperty\<close> for "width" (in px), "x" (in px), "xPercent" and "scaleX".
  The two \<^verbatim>\<open>gsap.set\<close> calls of the measure phase write the transform properties
  xPercent and x only; none of the six values is read from an element after its own
  xPercent and x were measured, except scaleX and the two layout properties, which those
  writes leave alone. So the snapshot is read-only in the model.
\<close>

record element =
  offsetLeft :: real
  offsetWidth :: real
  width_px :: real
  x_px :: real
  xPercent :: real
  scaleX :: real

text \<open>The options object \<^verbatim>\<open>horizontalLoop\<close> receives from its only caller.\<close>

record config =
  repeat :: int
  paddingRight :: real
  speed :: real

text \<open>
  The options of \<^verbatim>\<open>setupMarqueeAnimation\<close>; \<open>None\<close> is an absent (undefined or
  null) property.
\<close>

record setup_config =
  c_selector :: "string option"
  c_repeat :: "int option"
  c_paddingRight :: "real option"
  c_speed :: "real option"

text \<open>
  A scheduled tween: \<^verbatim>\<open>tl.to(item, {xPercent, duration}, position)\<close> has no "from"
  state and no \<^verbatim>\<open>immediateRender\<close> property;
  \<^verbatim>\<open>tl.fromTo(item, {xPercent}, {xPercent, duration, immediateRender}, position)\<close>
  has both. The target is the element's index in the item array.
\<close>

record segment =
  target :: nat
  from_xPercent :: "jsnum option"
  to_xPercent :: jsnum
  duration :: jsnum
  immediateRender :: "bool option"
  position :: jsnum

record timeline =
  tl_repeat :: int
  tl_ease :: string
  tweens :: "segment list"

datatype error = TypeError

subsection \<open>horizontalLoop\<close>

definition pixelsPerSecond :: "config \<Rightarrow> real" where
  "pixelsPerSecond c = (if speed c = 0 then 1 else speed c) * 100"

text \<open>
  The callback of the first \<^verbatim>\<open>gsap.set\<close>: \<^verbatim>\<open>widths[i]\<close> and
  \<^verbatim>\<open>xPercents[i]\<close> of one element.
\<close>

definition measure_width :: "element \<Rightarrow> real" where
  "measure_width el = width_px el"

definition measure_xPercent :: "element \<Rightarrow> jsnum" where
  "measure_xPercent el =
     nadd (nmul (ndiv (Fin (x_px el)) (measure_width el)) 100) (Fin (xPercent el))"

definition totalWidth ::
  "element list \<Rightarrow> real list \<Rightarrow> jsnum list \<Rightarrow> real \<Rightarrow> config \<Rightarrow> jsnum" where
  "totalWidth items widths xPercents startX c =
     (let l = length items - 1 in
      nadd
        (nadd
          (nsub
            (nadd (Fin (offsetLeft (items ! l)))
                  (nmul (ndiv (xPercents ! l) 100) (widths ! l)))
            (Fin startX))
          (Fin (offsetWidth (items ! l) * scaleX (items ! l))))
        (Fin (if paddingRight c = 0 then 0 else paddingRight c)))"

text \<open>
  The variables of one pass of the \<^verbatim>\<open>for\<close> loop, for element \<open>i\<close>, and the two
  tweens the pass schedules.
\<close>

definition curX :: "real list \<Rightarrow> jsnum list \<Rightarrow> nat \<Rightarrow> jsnum" where
  "curX widths xPercents i = nmul (ndiv (xPercents ! i) 100) (widths ! i)"

definition distanceToStart ::
  "element list \<Rightarrow> real list \<Rightarrow> jsnum list \<Rightarrow> real \<Rightarrow> nat \<Rightarrow> jsnum" where
  "distanceToStart items widths xPercents startX i =
     nsub (nadd (Fin (offsetLeft (items ! i))) (curX widths xPercents i)) (Fin startX)"

definition distanceToLoop ::
  "element list \<Rightarrow> real list \<Rightarrow> jsnum list \<Rightarrow> real \<Rightarrow> nat \<Rightarrow> jsnum" where
  "distanceToLoop items widths xPercents startX i =
     nadd (distanceToStart items widths xPercents startX i)
          (Fin (widths ! i * scaleX (items ! i)))"

definition loop_body ::
  "element list \<Rightarrow> real list \<Rightarrow> jsnum list \<Rightarrow> real \<Rightarrow> real \<Rightarrow> jsnum \<Rightarrow> nat
     \<Rightarrow> segment list" where
  "loop_body items widths xPercents startX pps tw i =
     (let cx = curX widths xPercents i;
          dl = distanceToLoop items widths xPercents startX i
      in [\<lparr>target = i,
           from_xPercent = None,
           to_xPercent = nmul (ndiv (nsub cx dl) (widths ! i)) 100,
           duration = ndiv dl pps,
           immediateRender = None,
           position = Fin 0\<rparr>,
          \<lparr>target = i,
           from_xPercent = Some (nmul (ndiv (nadd (nsub cx dl) tw) (widths ! i)) 100),
           to_xPercent = xPercents ! i,
           duration = ndiv (nsub (nadd (nsub cx dl) tw) cx) pps,
           immediateRender = Some False,
           position = ndiv dl pps\<rparr>])"

function loop ::
  "element list \<Rightarrow> real list \<Rightarrow> jsnum list \<Rightarrow> real \<Rightarrow> real \<Rightarrow> jsnum \<Rightarrow> nat
     \<Rightarrow> segment list \<Rightarrow> segment list" where
  "loop items widths xPercents startX pps tw i tws =
     (if i < length items
      then loop items widths xPercents startX pps tw (Suc i)
             (tws @ loop_body items widths xPercents startX pps tw i)
      else tws)"
  by pat_completeness auto
termination
  by (relation "measure (\<lambda>(items, widths, xPercents, startX, pps, tw, i, tws). length items - i)")
     auto

declare loop.simps [simp del]

text \<open>
  \<^verbatim>\<open>items[0].offsetLeft\<close> on an empty array reads a property of
  \<^verbatim>\<open>undefined\<close>, which throws a TypeError.
\<close>

definition horizontalLoop :: "element list \<Rightarrow> config \<Rightarrow> error + timeline" where
  "horizontalLoop items c =
     (case items of
        [] \<Rightarrow> Inl TypeError
      | first # _ \<Rightarrow>
          (let startX = offsetLeft first;
               pps = pixelsPerSecond c;
               widths = map measure_width items;
               xPercents = map measure_xPercent items;
               tw = totalWidth items widths xPercents startX c
           in Inr \<lparr>tl_repeat = repeat c,
                   tl_ease = ''none'',
                   tweens = loop items widths xPercents startX pps tw 0 []\<rparr>))"

subsection \<open>setupMarqueeAnimation\<close>

text \<open>
  The document is the function from a selector to the elements it matches, in document
  order. The result \<open>Inr None\<close> is the return of \<^verbatim>\<open>undefined\<close>.
\<close>

definition nullish :: "'a option \<Rightarrow> 'a \<Rightarrow> 'a" where
  "nullish v d = (case v of None \<Rightarrow> d | Some a \<Rightarrow> a)"

definition selector_or_default :: "setup_config \<Rightarrow> string" where
  "selector_or_default sc =
     (case c_selector sc of
        None \<Rightarrow> ''.marquee h1''
      | Some s \<Rightarrow> if s = [] then ''.marquee h1'' else s)"

definition setupMarqueeAnimation ::
  "(string \<Rightarrow> element list) \<Rightarrow> setup_config \<Rightarrow> error + timeline option" where
  "setupMarqueeAnimation document sc =
     (let marqueeItems = document (selector_or_default sc)
      in if length marqueeItems > 0
         then (case horizontalLoop marqueeItems
                      \<lparr>repeat = nullish (c_repeat sc) (- 1),
                       paddingRight = nullish (c_paddingRight sc) 30,
                       speed = nullish (c_speed sc) 1\<rparr> of
                 Inl e \<Rightarrow> Inl e
               | Inr t \<Rightarrow> Inr (Some t))
         else Inr None)"

subsection \<open>Observations on the result\<close>

text \<open>
  The cycle width the builder computes for an input (its local variable
  \<^verbatim>\<open>totalWidth\<close>), element \<open>i\<close>'s distance to its wrap
  point (the local \<^verbatim>\<open>distanceToLoop\<close>), and element \<open>i\<close>'s two tweens in the
  timeline: the loop schedules the "to" tween of element \<open>i\<close> as tween \<open>2 * i\<close> and its
  "fromTo" tween as tween \<open>2 * i + 1\<close>.
\<close>

definition cycleWidth :: "element list \<Rightarrow> config \<Rightarrow> jsnum" where
  "cycleWidth items c =
     totalWidth items (map measure_width items) (map measure_xPercent items)
       (offsetLeft (items ! 0)) c"

definition wrapDistance :: "element list \<Rightarrow> nat \<Rightarrow> jsnum" where
  "wrapDistance items i =
     distanceToLoop items (map measure_width items) (map measure_xPercent items)
       (offsetLeft (items ! 0)) i"

definition exitTween :: "timeline \<Rightarrow> nat \<Rightarrow> segment" where
  "exitTween t i = tweens t ! (2 * i)"

definition reentryTween :: "timeline \<Rightarrow> nat \<Rightarrow> segment" where
  "reentryTween t i = tweens t ! (2 * i + 1)"

definition cycleDuration :: "timeline \<Rightarrow> nat \<Rightarrow> jsnum" where
  "cycleDuration t i = nadd (duration (exitTween t i)) (duration (reentryTween t i))"

text \<open>
  The same quantities as real numbers, for an element of non-zero width: the measured
  displacement converted back to pixels (the local \<^verbatim>\<open>curX\<close>) and the distance to the
  wrap point.
\<close>

definition curX_px :: "element \<Rightarrow> real" where
  "curX_px el = (x_px el / width_px el * 100 + xPercent el) / 100 * width_px el"

definition wrap_px :: "element list \<Rightarrow> nat \<Rightarrow> real" where
  "wrap_px items i =
     offsetLeft (items ! i) + curX_px (items ! i) - offsetLeft (items ! 0)
       + width_px (items ! i) * scaleX (items ! i)"

text \<open>
  Test inputs: an element laid out at \<open>left\<close> with width \<open>w\<close>, no transform and unit
  scale; two such elements of widths 100 and 200 side by side; a single one of width 50.
\<close>

definition plain_item :: "real \<Rightarrow> real \<Rightarrow> element" where
  "plain_item left w =
     \<lparr>offsetLeft = left, offsetWidth = w, width_px = w, x_px = 0, xPercent = 0, scaleX = 1\<rparr>"


definition one_item :: "element list" where
  "one_item = [plain_item 0 50]"

section \<open>Properties\<close>

subsection \<open>The tweens of the timeline\<close>

lemma loop_unfold:
  "loop items widths xPercents startX pps tw i tws =
     tws @ concat (map (loop_body items widths xPercents startX pps tw) [i..<length items])"
proof (induction items widths xPercents startX pps tw i tws rule: loop.induct)
  case (1 items widths xPercents startX pps tw i tws)
  show ?case
  proof (cases "i < length items")
    case True
    with 1 show ?thesis
      by (subst loop.simps) (simp add: upt_conv_Cons)
  next
    case False
    then show ?thesis by (subst loop.simps) simp
  qed
qed

lemma length_concat_pairs:
  assumes "\<And>k. length (f k) = 2"
  shows "length (concat (map f [0..<n])) = 2 * n"
  by (induction n) (simp_all add: assms)

lemma concat_pairs_nth:
  assumes len: "\<And>k. length (f k) = 2" and "i < n" and "j < 2"
  shows "concat (map f [0..<n]) ! (2 * i + j) = f i ! j"
  using \<open>i < n\<close>
proof (induction n)
  case 0
  then show ?case by simp
next
  case (Suc n)
  have l: "length (concat (map f [0..<n])) = 2 * n"
    by (rule length_concat_pairs [OF len])
  show ?case
  proof (cases "i < n")
    case True
    with Suc.IH \<open>j < 2\<close> l show ?thesis by (simp add: nth_append)
  next
    case False
    with Suc.prems have "i = n" by simp
    with \<open>j < 2\<close> l show ?thesis by (simp add: nth_append)
  qed
qed

lemma length_loop_body [simp]:
  "length (loop_body items widths xPercents startX pps tw i) = 2"
  by (simp add: loop_body_def Let_def)


lemma horizontalLoop_tweens:
  assumes "items \<noteq> []"
  shows "horizontalLoop items c =
           Inr \<lparr>tl_repeat = repeat c, tl_ease = ''none'',
                 tweens = concat (map (loop_body items (map measure_width items)
                                         (map measure_xPercent items) (offsetLeft (items ! 0))
                                         (pixelsPerSecond c) (cycleWidth items c))
                                    [0..<length items])\<rparr>"
  using assms
  by (cases items) (simp_all add: horizontalLoop_def Let_def loop_unfold cycleWidth_def)

lemma tweens_of_item:
  assumes "items \<noteq> []" and "i < length items" and "horizontalLoop items c = Inr t"
  shows "exitTween t i =
           loop_body items (map measure_width items) (map measure_xPercent items)
             (offsetLeft (items ! 0)) (pixelsPerSecond c) (cycleWidth items c) i ! 0"
    and "reentryTween t i =
           loop_body items (map measure_width items) (map measure_xPercent items)
             (offsetLeft (items ! 0)) (pixelsPerSecond c) (cycleWidth items c) i ! 1"
proof -
  let ?f = "loop_body items (map measure_width items) (map measure_xPercent items)
             (offsetLeft (items ! 0)) (pixelsPerSecond c) (cycleWidth items c)"
  have tw: "tweens t = concat (map ?f [0..<length items])"
    using horizontalLoop_tweens [OF assms(1), of c] assms(3) by auto
  show "exitTween t i = ?f i ! 0"
    using concat_pairs_nth [of ?f i "length items" 0] assms(2)
    by (simp add: exitTween_def tw)
  show "reentryTween t i = ?f i ! 1"
    using concat_pairs_nth [of ?f i "length items" 1] assms(2)
    by (simp add: reentryTween_def tw)
qed

text \<open>Values for elements of non-zero width, and of zero width.\<close>

lemma measure_xPercent_finite:
  "width_px el \<noteq> 0 \<Longrightarrow>
     measure_xPercent el = Fin (x_px el / width_px el * 100 + xPercent el)"
  by (simp add: measure_xPercent_def measure_width_def)

lemma measure_xPercent_zero_width:
  "width_px el = 0 \<Longrightarrow> measure_xPercent el = NonFinite"
  by (simp add: measure_xPercent_def measure_width_def)

lemma curX_finite:
  assumes "i < length items" and "width_px (items ! i) \<noteq> 0"
  shows "curX (map measure_width items) (map measure_xPercent items) i = Fin (curX_px (items ! i))"
  using assms by (simp add: curX_def measure_xPercent_finite curX_px_def measure_width_def)

lemma wrapDistance_finite:
  assumes "i < length items" and "width_px (items ! i) \<noteq> 0"
  shows "wrapDistance items i =
           Fin (offsetLeft (items ! i) + curX_px (items ! i) - offsetLeft (items ! 0)
                + width_px (items ! i) * scaleX (items ! i))"
  using assms
  by (simp add: wrapDistance_def distanceToLoop_def distanceToStart_def curX_finite measure_width_def)

lemma cycleWidth_finite:
  assumes "items \<noteq> []" and "width_px (last items) \<noteq> 0"
  shows "cycleWidth items c =
           Fin (offsetLeft (last items) + curX_px (last items) - offsetLeft (hd items)
                + offsetWidth (last items) * scaleX (last items) + paddingRight c)"
  using assms
  by (simp add: cycleWidth_def totalWidth_def Let_def last_conv_nth hd_conv_nth
        measure_xPercent_finite curX_px_def measure_width_def)


lemma pixelsPerSecond_nonzero: "pixelsPerSecond c \<noteq> 0"
  by (simp add: pixelsPerSecond_def)

lemma item_tweens_finite:
  assumes ne: "items \<noteq> []" and i: "i < length items" and w: "width_px (items ! i) \<noteq> 0"
    and T: "cycleWidth items c = Fin T" and t: "horizontalLoop items c = Inr t"
  shows "exitTween t i =
           \<lparr>target = i, from_xPercent = None,
            to_xPercent = Fin ((curX_px (items ! i) - wrap_px items i) / width_px (items ! i) * 100),
            duration = Fin (wrap_px items i / pixelsPerSecond c),
            immediateRender = None, position = Fin 0\<rparr>"
    and "reentryTween t i =
           \<lparr>target = i,
            from_xPercent =
              Some (Fin ((curX_px (items ! i) - wrap_px items i + T) / width_px (items ! i) * 100)),
            to_xPercent = Fin (x_px (items ! i) / width_px (items ! i) * 100 + xPercent (items ! i)),
            duration = Fin ((curX_px (items ! i) - wrap_px items i + T - curX_px (items ! i))
                             / pixelsPerSecond c),
            immediateRender = Some False,
            position = Fin (wrap_px items i / pixelsPerSecond c)\<rparr>"
proof -
  have d: "distanceToLoop items (map measure_width items) (map measure_xPercent items)
             (offsetLeft (items ! 0)) i = Fin (wrap_px items i)"
    using wrapDistance_finite [OF i w] by (simp add: wrapDistance_def wrap_px_def)
  note cx = curX_finite [OF i w]
  show "exitTween t i =
           \<lparr>target = i, from_xPercent = None,
            to_xPercent = Fin ((curX_px (items ! i) - wrap_px items i) / width_px (items ! i) * 100),
            duration = Fin (wrap_px items i / pixelsPerSecond c),
            immediateRender = None, position = Fin 0\<rparr>"
    using i w by (simp add: tweens_of_item(1) [OF ne i t] loop_body_def Let_def d cx T
        pixelsPerSecond_nonzero measure_width_def)
  show "reentryTween t i =
           \<lparr>target = i,
            from_xPercent =
              Some (Fin ((curX_px (items ! i) - wrap_px items i + T) / width_px (items ! i) * 100)),
            to_xPercent = Fin (x_px (items ! i) / width_px (items ! i) * 100 + xPercent (items ! i)),
            duration = Fin ((curX_px (items ! i) - wrap_px items i + T - curX_px (items ! i))
                             / pixelsPerSecond c),
            immediateRender = Some False,
            position = Fin (wrap_px items i / pixelsPerSecond c)\<rparr>"
    using i w by (simp add: tweens_of_item(2) [OF ne i t] loop_body_def Let_def d cx T
        pixelsPerSecond_nonzero measure_width_def measure_xPercent_finite)
qed

lemma builds:
  assumes "items \<noteq> []"
  shows "\<exists>t. horizontalLoop items c = Inr t"
  using horizontalLoop_tweens [OF assms] by blast

lemma last_width:
  assumes "items \<noteq> []" and "\<forall>el \<in> set items. width_px el \<noteq> 0"
  shows "width_px (last items) \<noteq> 0"
  using assms by simp

lemma cycleDuration_finite:
  assumes ne: "items \<noteq> []" and i: "i < length items" and w: "width_px (items ! i) \<noteq> 0"
    and T: "cycleWidth items c = Fin T" and t: "horizontalLoop items c = Inr t"
  shows "cycleDuration t i = Fin (T / pixelsPerSecond c)"
  by (simp add: cycleDuration_def item_tweens_finite [OF ne i w T t]
        add_divide_distrib [symmetric])

lemma nonfinite_absorbs [simp]:
  "nadd NonFinite b = NonFinite" "nadd a NonFinite = NonFinite"
  "nsub NonFinite b = NonFinite" "nsub a NonFinite = NonFinite"
  by (cases b, simp_all; cases a, simp_all)+

text \<open>The unfolding that evaluates the builder on a concrete input.\<close>

lemmas eval_defs =
  horizontalLoop_tweens cycleDuration_def exitTween_def reentryTween_def
  loop_body_def Let_def cycleWidth_def totalWidth_def measure_xPercent_def measure_width_def
  curX_def distanceToLoop_def distanceToStart_def pixelsPerSecond_def upt_rec

subsection \<open>The schedule of an element's two tweens\<close>

text \<open>
  For every element of a non-empty sequence, the exit tween is placed at time 0 and lasts
  \<open>distanceToLoop / pixelsPerSecond\<close>; the re-entry tween is placed at that same value,
  carries a "from" state and is created with \<^verbatim>\<open>immediateRender: false\<close>. Position
  and duration are one expression of the source, so they agree whatever the arithmetic.
  What the animation library renders when the tween is created, and when the playhead
  reaches it, is not part of the model.
\<close>

lemma reentry_tween_schedule:
  assumes "items \<noteq> []" and "i < length items" and "horizontalLoop items c = Inr t"
  shows "target (exitTween t i) = i" and "position (exitTween t i) = Fin 0"
    and "duration (exitTween t i) = ndiv (wrapDistance items i) (pixelsPerSecond c)"
    and "target (reentryTween t i) = i"
    and "position (reentryTween t i) = duration (exitTween t i)"
    and "from_xPercent (reentryTween t i) \<noteq> None"
    and "immediateRender (reentryTween t i) = Some False"
  by (simp_all add: tweens_of_item [OF assms] loop_body_def Let_def wrapDistance_def)

subsection \<open>Identities of exact arithmetic\<close>

text \<open>
  The formulas of the builder satisfy the three statements below when the arithmetic is
  exact, as it is in this model. The code computes in doubles, where every operation
  rounds: the two sides of an identity are then the results of different sequences of
  operations and can differ in the last place, and a small increase of the padding can be
  absorbed by the sum it is added to. For the two-element input with padding 30 and speed
  1, for instance, element 0's re-entry "from" value is 229.99999999999997 in doubles,
  while its exit end -100 plus the cycle width in percent, (330 / 100) * 100, is 230; for
  three elements of width 10 the durations of element 0 add up to 0.30000000000000004 and
  those of element 2 to 0.3; and the paddings 30 and 30.000000000000004 both give the cycle
  width 330. So these are statements about the formulas, for non-zero widths, and not
  about the doubles the code produces.

  The re-entry "from" value is the exit end plus the cycle width as a percentage of the
  element's own width.
\<close>

lemma exact_reentry_from:
  assumes "items \<noteq> []" and "i < length items" and "\<forall>el \<in> set items. width_px el \<noteq> 0"
  shows "\<exists>t T e. horizontalLoop items c = Inr t \<and> cycleWidth items c = Fin T
           \<and> target (exitTween t i) = i \<and> target (reentryTween t i) = i
           \<and> to_xPercent (exitTween t i) = Fin e
           \<and> from_xPercent (reentryTween t i) = Some (Fin (e + T / width_px (items ! i) * 100))"
proof -
  obtain t where t: "horizontalLoop items c = Inr t"
    using builds [OF assms(1)] by blast
  obtain T where T: "cycleWidth items c = Fin T"
    using cycleWidth_finite [OF assms(1) last_width [OF assms(1,3)]] by blast
  have w: "width_px (items ! i) \<noteq> 0"
    using assms(2,3) by simp
  note tw = item_tweens_finite [OF assms(1,2) w T t]
  show ?thesis
    using t T w by (simp add: tw add_divide_distrib distrib_right)
qed

text \<open>
  For a non-zero speed, exit duration plus re-entry duration is the cycle width divided by
  \<open>speed * 100\<close>, for every element.
\<close>

lemma exact_cycle_duration:
  assumes "items \<noteq> []" and "\<forall>el \<in> set items. width_px el \<noteq> 0" and "speed c \<noteq> 0"
  shows "\<exists>t T. horizontalLoop items c = Inr t \<and> cycleWidth items c = Fin T
           \<and> (\<forall>i < length items. \<exists>d b.
                  wrapDistance items i = Fin d
                  \<and> duration (exitTween t i) = Fin (d / pixelsPerSecond c)
                  \<and> duration (reentryTween t i) = Fin b
                  \<and> d / pixelsPerSecond c + b = T / (speed c * 100)
                  \<and> cycleDuration t i = Fin (T / (speed c * 100)))"
proof -
  obtain t where t: "horizontalLoop items c = Inr t"
    using builds [OF assms(1)] by blast
  obtain T where T: "cycleWidth items c = Fin T"
    using cycleWidth_finite [OF assms(1) last_width [OF assms(1,2)]] by blast
  have pps: "pixelsPerSecond c = speed c * 100"
    using assms(3) by (simp add: pixelsPerSecond_def)
  have "\<exists>d b. wrapDistance items i = Fin d
           \<and> duration (exitTween t i) = Fin (d / pixelsPerSecond c)
           \<and> duration (reentryTween t i) = Fin b
           \<and> d / pixelsPerSecond c + b = T / (speed c * 100)
           \<and> cycleDuration t i = Fin (T / (speed c * 100))" if i: "i < length items" for i
  proof -
    have w: "width_px (items ! i) \<noteq> 0"
      using i assms(2) by simp
    note tw = item_tweens_finite [OF assms(1) i w T t]
    have "wrap_px items i / pixelsPerSecond c
            + (curX_px (items ! i) - wrap_px items i + T - curX_px (items ! i)) / pixelsPerSecond c
          = T / (speed c * 100)"
      by (simp add: pps add_divide_distrib [symmetric])
    then show ?thesis
      using cycleDuration_finite [OF assms(1) i w T t]
      by (simp add: tw wrapDistance_finite [OF i w] wrap_px_def pps)
  qed
  with t T show ?thesis by blast
qed

text \<open>
  For a non-negative speed, a larger padding gives a larger cycle width and a larger
  cycle duration for every element.
\<close>

lemma exact_padding_increases_cycle:
  assumes "items \<noteq> []" and "\<forall>el \<in> set items. width_px el \<noteq> 0" and "0 \<le> speed c"
    and "p1 < p2"
  shows "\<exists>t1 t2 T1 T2.
           horizontalLoop items (c\<lparr>paddingRight := p1\<rparr>) = Inr t1
           \<and> horizontalLoop items (c\<lparr>paddingRight := p2\<rparr>) = Inr t2
           \<and> cycleWidth items (c\<lparr>paddingRight := p1\<rparr>) = Fin T1
           \<and> cycleWidth items (c\<lparr>paddingRight := p2\<rparr>) = Fin T2
           \<and> T1 < T2
           \<and> (\<forall>i < length items. \<exists>d1 d2.
                  cycleDuration t1 i = Fin d1 \<and> cycleDuration t2 i = Fin d2 \<and> d1 < d2)"
proof -
  let ?c1 = "c\<lparr>paddingRight := p1\<rparr>" and ?c2 = "c\<lparr>paddingRight := p2\<rparr>"
  let ?base = "offsetLeft (last items) + curX_px (last items) - offsetLeft (hd items)
                + offsetWidth (last items) * scaleX (last items)"
  obtain t1 where t1: "horizontalLoop items ?c1 = Inr t1"
    using builds [OF assms(1)] by blast
  obtain t2 where t2: "horizontalLoop items ?c2 = Inr t2"
    using builds [OF assms(1)] by blast
  note lw = last_width [OF assms(1,2)]
  have T1: "cycleWidth items ?c1 = Fin (?base + p1)"
    using cycleWidth_finite [OF assms(1) lw, of ?c1] by simp
  have T2: "cycleWidth items ?c2 = Fin (?base + p2)"
    using cycleWidth_finite [OF assms(1) lw, of ?c2] by simp
  have pps: "pixelsPerSecond ?c1 = pixelsPerSecond c" "pixelsPerSecond ?c2 = pixelsPerSecond c"
    by (simp_all add: pixelsPerSecond_def)
  have pos: "0 < pixelsPerSecond c"
    using assms(3) by (simp add: pixelsPerSecond_def)
  have "\<exists>d1 d2. cycleDuration t1 i = Fin d1 \<and> cycleDuration t2 i = Fin d2 \<and> d1 < d2"
    if i: "i < length items" for i
  proof -
    have w: "width_px (items ! i) \<noteq> 0"
      using i assms(2) by simp
    have "(?base + p1) / pixelsPerSecond c < (?base + p2) / pixelsPerSecond c"
      using pos assms(4) by (simp add: divide_strict_right_mono)
    then show ?thesis
      by (simp add: cycleDuration_finite [OF assms(1) i w T1 t1]
            cycleDuration_finite [OF assms(1) i w T2 t2] pps)
  qed
  with t1 t2 T1 T2 assms(4) show ?thesis by simp
qed

subsection \<open>Cycle width\<close>



subsection \<open>Configurations and geometry the builder does not reject\<close>




text \<open>
  A single element of measured width 0: the builder returns a timeline whose displacement
  values and durations are not finite.
\<close>

theorem zero_width_item_accepted:
  "width_px (plain_item 0 0) = 0
   \<and> horizontalLoop [plain_item 0 0] \<lparr>repeat = - 1, paddingRight = 30, speed = 1\<rparr> =
       Inr \<lparr>tl_repeat = - 1, tl_ease = ''none'',
            tweens =
              [\<lparr>target = 0, from_xPercent = None, to_xPercent = NonFinite,
                duration = NonFinite, immediateRender = None, position = Fin 0\<rparr>,
               \<lparr>target = 0, from_xPercent = Some NonFinite, to_xPercent = NonFinite,
                duration = NonFinite, immediateRender = Some False,
                position = NonFinite\<rparr>]\<rparr>"
  by (simp add: eval_defs plain_item_def)

text \<open>
  C6, as the code has it. The division by the measured width is not guarded: when element
  \<open>i\<close> has measured width 0 the builder raises no error and returns a timeline in which
  both tweens of element \<open>i\<close> have non-finite displacement values and durations.
\<close>

theorem zero_width_gives_nonfinite_tweens:
  assumes "i < length items" and "width_px (items ! i) = 0"
  shows "\<exists>t. horizontalLoop items c = Inr t
           \<and> target (exitTween t i) = i \<and> target (reentryTween t i) = i
           \<and> to_xPercent (exitTween t i) = NonFinite
           \<and> duration (exitTween t i) = NonFinite
           \<and> from_xPercent (reentryTween t i) = Some NonFinite
           \<and> to_xPercent (reentryTween t i) = NonFinite
           \<and> duration (reentryTween t i) = NonFinite
           \<and> position (reentryTween t i) = NonFinite"
proof -
  have ne: "items \<noteq> []" using assms(1) by auto
  obtain t where t: "horizontalLoop items c = Inr t"
    using builds [OF ne] by blast
  have xp: "map measure_xPercent items ! i = NonFinite"
    using assms by (simp add: measure_xPercent_zero_width)
  have cx: "curX (map measure_width items) (map measure_xPercent items) i = NonFinite"
    by (simp add: curX_def xp)
  have dl: "distanceToLoop items (map measure_width items) (map measure_xPercent items)
              (offsetLeft (items ! 0)) i = NonFinite"
    by (simp add: distanceToLoop_def distanceToStart_def cx)
  show ?thesis
    using t by (simp add: tweens_of_item [OF ne assms(1) t] loop_body_def Let_def cx dl xp)
qed

theorem zero_width_gives_nonfinite_tweens_witness:
  "0 < length [plain_item 0 0] \<and> width_px ([plain_item 0 0] ! 0) = 0
   \<and> (\<exists>t. horizontalLoop [plain_item 0 0] \<lparr>repeat = - 1, paddingRight = 30, speed = 1\<rparr> = Inr t
           \<and> target (exitTween t 0) = 0 \<and> target (reentryTween t 0) = 0
           \<and> to_xPercent (exitTween t 0) = NonFinite
           \<and> duration (exitTween t 0) = NonFinite
           \<and> from_xPercent (reentryTween t 0) = Some NonFinite
           \<and> to_xPercent (reentryTween t 0) = NonFinite
           \<and> duration (reentryTween t 0) = NonFinite
           \<and> position (reentryTween t 0) = NonFinite)"
  using zero_width_gives_nonfinite_tweens [of 0 "[plain_item 0 0]" "\<lparr>repeat = - 1, paddingRight = 30, speed = 1\<rparr>"]
  by (simp add: plain_item_def)

subsection \<open>The setup function\<close>

text \<open>
  C7 (empty input). When the selector matches no element, the setup function builds no
  timeline: it returns \<^verbatim>\<open>undefined\<close> and raises no error.
\<close>

theorem empty_query_returns_nothing:
  assumes "document (selector_or_default sc) = []"
  shows "setupMarqueeAnimation document sc = Inr None"
  using assms by (simp add: setupMarqueeAnimation_def)

theorem empty_query_returns_nothing_witness:
  "(\<lambda>sel. if sel = ''.marquee h1'' then [] else one_item)
     (selector_or_default
        \<lparr>c_selector = None, c_repeat = None, c_paddingRight = None, c_speed = None\<rparr>) = []
   \<and> setupMarqueeAnimation (\<lambda>sel. if sel = ''.marquee h1'' then [] else one_item)
         \<lparr>c_selector = None, c_repeat = None, c_paddingRight = None, c_speed = None\<rparr>
       = Inr None"
  using empty_query_returns_nothing [of "\<lambda>sel. if sel = ''.marquee h1'' then [] else one_item"
               "\<lparr>c_selector = None, c_repeat = None, c_paddingRight = None, c_speed = None\<rparr>"]
  by (simp add: selector_or_default_def)

text \<open>
  The repeat option: when the selector matches an element, the timeline is constructed
  with the given repeat count, and with -1 when none is given.
\<close>

lemma repeat_option_passed_on:
  assumes "document (selector_or_default sc) \<noteq> []"
  shows "\<exists>t. setupMarqueeAnimation document sc = Inr (Some t)
           \<and> tl_repeat t = (case c_repeat sc of None \<Rightarrow> - 1 | Some r \<Rightarrow> r)"
  using assms horizontalLoop_tweens [OF assms]
  by (simp add: setupMarqueeAnimation_def Let_def nullish_def)

subsection \<open>The speed option\<close>



end
